theory Spec2Isabelle
  imports Main "HOL-Library.Char_ord" "HOL-Library.List_Lexorder" "HOL-Library.Sublist"
begin

section \<open>Python strings\<close>

text \<open>
  A Python \<open>str\<close> is a sequence of code points; here a \<^typ>\<open>char\<close> stands for a code
  point below 256. The order on strings (\<open>HOL-Library.Char_ord\<close> and
  \<open>HOL-Library.List_Lexorder\<close>) is the lexicographic order on code points, which is how
  Python compares two \<open>str\<close> objects, and so how \<open>sorted\<close> orders a list of them.
\<close>

text \<open>\<open>str.isspace\<close> on one code point: the Unicode white space below 256.\<close>

definition isspace :: "char \<Rightarrow> bool" where
  "isspace c = ((of_char c :: nat) \<in> set [9, 10, 11, 12, 13, 28, 29, 30, 31, 32, 133, 160])"

text \<open>\<open>s.strip()\<close>: white space removed at both ends.\<close>

definition py_strip :: "string \<Rightarrow> string" where
  "py_strip s = rev (dropWhile isspace (rev (dropWhile isspace s)))"

text \<open>
  \<open>s.split()\<close>: the maximal runs of characters that are not white space, in order.
  The first argument holds the current run, reversed.
\<close>

fun split_run :: "string \<Rightarrow> string \<Rightarrow> string list" where
  "split_run run [] = (if run = [] then [] else [rev run])"
| "split_run run (c # cs) =
     (if isspace c then (if run = [] then split_run [] cs else rev run # split_run [] cs)
      else split_run (c # run) cs)"

definition py_split :: "string \<Rightarrow> string list" where
  "py_split s = split_run [] s"

text \<open>
  \<open>s.splitlines()\<close>: the line boundaries below code point 256 are \<open>\n\<close>, \<open>\r\<close>,
  \<open>\r\n\<close>, \<open>\v\<close>, \<open>\f\<close>, \<open>\x1c\<close>, \<open>\x1d\<close>, \<open>\x1e\<close> and \<open>\x85\<close>; a final
  boundary opens no empty last line.
\<close>

definition islinebreak :: "char \<Rightarrow> bool" where
  "islinebreak c = ((of_char c :: nat) \<in> set [10, 11, 12, 13, 28, 29, 30, 133])"

fun splitlines_run :: "string \<Rightarrow> string \<Rightarrow> string list" where
  "splitlines_run run [] = (if run = [] then [] else [rev run])"
| "splitlines_run run [c] = (if islinebreak c then [rev run] else [rev (c # run)])"
| "splitlines_run run (c # d # cs) =
     (if c = CHR 0x0D \<and> d = CHR 0x0A then rev run # splitlines_run [] cs
      else if islinebreak c then rev run # splitlines_run [] (d # cs)
      else splitlines_run (c # run) (d # cs))"

definition py_splitlines :: "string \<Rightarrow> string list" where
  "py_splitlines s = splitlines_run [] s"

text \<open>\<open>s.lower()\<close>, on the letters below code point 256.\<close>

definition lower_char :: "char \<Rightarrow> char" where
  "lower_char c =
     (let n = (of_char c :: nat)
      in if (65 \<le> n \<and> n \<le> 90) \<or> (192 \<le> n \<and> n \<le> 222 \<and> n \<noteq> 215)
         then char_of (n + 32) else c)"

definition py_lower :: "string \<Rightarrow> string" where
  "py_lower s = map lower_char s"

text \<open>\<open>sub in s\<close> on strings: \<open>sub\<close> occurs in \<open>s\<close> as a contiguous substring.\<close>

fun py_in :: "string \<Rightarrow> string \<Rightarrow> bool" where
  "py_in sub [] = (sub = [])"
| "py_in sub (c # cs) = (prefix sub (c # cs) \<or> py_in sub cs)"

section \<open>Configuration documents\<close>

text \<open>
  The configuration is a YAML document read into Python objects. The entries of the
  \<open>grub_dpkg\<close> mapping are modelled as \<open>None\<close>, a native boolean or a string; an entry
  of the top-level document is such a scalar or a mapping of them. A dictionary is an
  association list read with \<^const>\<open>map_of\<close>.
\<close>

datatype scalar = PNone | PBool bool | PStr string

type_synonym Config = "(string \<times> scalar) list"

datatype pyval = Scalar scalar | Dict Config

text \<open>\<open>d.get(key, default)\<close>.\<close>

definition dict_get :: "(string \<times> 'a) list \<Rightarrow> string \<Rightarrow> 'a \<Rightarrow> 'a" where
  "dict_get d k dflt = (case map_of d k of None \<Rightarrow> dflt | Some v \<Rightarrow> v)"

text \<open>\<open>str(v)\<close> on a scalar.\<close>

fun py_str :: "scalar \<Rightarrow> string" where
  "py_str PNone = ''None''"
| "py_str (PBool True) = ''True''"
| "py_str (PBool False) = ''False''"
| "py_str (PStr s) = s"

text \<open>Python's truth test, as \<open>not mycfg\<close> applies it.\<close>

fun truthy :: "pyval \<Rightarrow> bool" where
  "truthy (Scalar PNone) = False"
| "truthy (Scalar (PBool b)) = b"
| "truthy (Scalar (PStr s)) = (s \<noteq> [])"
| "truthy (Dict d) = (d \<noteq> [])"

subsection \<open>Helpers of \<open>cloudinit.util\<close>\<close>

text \<open>
  Modelled from the spec: \<open>util.is_false\<close>, of \<open>cloudinit/util.py\<close>, which is not among
  the sources. The spec (sections 3 and 4.1) describes a relaxed truthy/falsy
  interpretation: a native boolean stands for itself, and a string is read as false when
  it is one of the falsy spellings. The spec lists the truthy spellings \<open>true\<close>, \<open>yes\<close>
  and \<open>1\<close>; the falsy ones are taken to be their counterparts.
\<close>

definition is_false :: "scalar \<Rightarrow> bool" where
  "is_false v =
     (case v of
        PBool b \<Rightarrow> \<not> b
      | PStr s \<Rightarrow> s \<in> set [''false'', ''no'', ''0'']
      | PNone \<Rightarrow> False)"

text \<open>
  Modelled from the spec: \<open>util.translate_bool\<close>, of \<open>cloudinit/util.py\<close>, which is not
  among the sources. It is the same relaxed parser (section 4.5), read for truth: a
  native boolean stands for itself, and a string is true when it is one of the truthy
  spellings \<open>true\<close>, \<open>yes\<close>, \<open>1\<close> of section 3.
\<close>

definition translate_bool :: "scalar \<Rightarrow> bool" where
  "translate_bool v =
     (case v of
        PBool b \<Rightarrow> b
      | PStr s \<Rightarrow> s \<in> set [''true'', ''yes'', ''1'']
      | PNone \<Rightarrow> False)"

text \<open>
  Modelled from the spec: \<open>util.get_cfg_option_str\<close>, of \<open>cloudinit/util.py\<close>, which is
  not among the sources. Section 4.5 takes the device identifier from the explicit
  configuration entry if it is present: the default when the key is absent, and
  otherwise the entry as a string.
\<close>

definition get_cfg_option_str :: "Config \<Rightarrow> string \<Rightarrow> string option \<Rightarrow> string option" where
  "get_cfg_option_str yobj key dflt =
     (case map_of yobj key of None \<Rightarrow> dflt | Some v \<Rightarrow> Some (py_str v))"

section \<open>The outside world\<close>

text \<open>
  An exception is a value. \<open>ProcessExecutionError\<close> carries what the handler of
  \<open>fetch_idevs\<close> inspects: whether its \<open>reason\<close> is a \<open>FileNotFoundError\<close>, and
  its \<open>stderr\<close>. The other constructors stand for exceptions of other classes, all of
  them subclasses of \<open>Exception\<close>.
\<close>

datatype exn =
    ProcessExecutionError bool string
  | OSError
  | AttributeError
  | OtherException

text \<open>
  The external collaborators, as the answers they give during one run of the module:
  \<open>path_exists p\<close> is the outcome of \<open>os.path.exists(p)\<close>, with \<open>None\<close> for an
  \<open>OSError\<close>; \<open>subp args data\<close> is the outcome of \<open>subp.subp(args, data)\<close>, the pair
  of captured standard output and standard error, or the exception raised.
\<close>

record world =
  path_exists :: "string \<Rightarrow> bool option"
  subp :: "string list \<Rightarrow> string option \<Rightarrow> exn + (string \<times> string)"

text \<open>
  What a run does to the outside, in order: the commands it invokes (argument list and
  standard input) and the log calls it makes (the level and the message as the source
  writes it, arguments not filled in).
\<close>

datatype event =
    Subp "string list" "string option"
  | LogDebug string
  | LogError string
  | Logexc string

section \<open>The module \<open>cc_grub_dpkg\<close>\<close>

subsection \<open>\<open>fetch_idevs\<close>\<close>

text \<open>
  Lines 72 to 92: the probe of the disk behind the mount point. A
  \<open>ProcessExecutionError\<close> that is neither of the two known cases is raised again
  from inside its own handler; the \<open>except Exception\<close> clause of the same statement
  guards the body of the statement only, so the exception leaves \<open>fetch_idevs\<close>.
\<close>

definition probe_disk :: "world \<Rightarrow> string \<Rightarrow> event list \<times> (exn + string)" where
  "probe_disk w mount_point =
     (let cmd = [''grub-probe'', ''-t'', ''disk'', mount_point]
      in case subp w cmd None of
           Inr (out, err) \<Rightarrow> ([Subp cmd None], Inr (py_strip out))
         | Inl (ProcessExecutionError reason_is_fnf stderr) \<Rightarrow>
             if reason_is_fnf
             then ([Subp cmd None, LogDebug '''grub-probe' not found in $PATH''], Inr [])
             else if py_in ''failed to get canonical path'' stderr
             then ([Subp cmd None, LogDebug (''grub-probe 'failed to get canonical path'' @ [CHR 0x27])],
                   Inr [])
             else ([Subp cmd None], Inl (ProcessExecutionError reason_is_fnf stderr))
         | Inl e \<Rightarrow>
             ([Subp cmd None, Logexc ''grub-probe failed to execute for grub-dpkg''], Inr []))"

text \<open>Lines 98 to 111: the symlinks of the disk; any failure leaves the list empty.\<close>

definition query_symlinks :: "world \<Rightarrow> string \<Rightarrow> event list \<times> string list" where
  "query_symlinks w disk =
     (let cmd = [''udevadm'', ''info'', ''--root'', ''--query=symlink'', disk]
      in case subp w cmd None of
           Inr (out, err) \<Rightarrow> ([Subp cmd None], py_split (py_strip out))
         | Inl e \<Rightarrow>
             ([Subp cmd None,
               Logexc (''udevadm DEVLINKS symlink query failed for disk='%s'' @ [CHR 0x27])], []))"

text \<open>
  The whole function. Lines 94 to 96 return the empty string when no disk was found or
  the path does not exist; lines 113 to 121 keep the symlinks that contain
  \<open>disk/by-id\<close> and select \<open>sorted(devices)[0]\<close>, or the disk when none is left.
\<close>

definition fetch_idevs :: "world \<Rightarrow> string \<Rightarrow> event list \<times> (exn + string)" where
  "fetch_idevs w mount_point =
     (case probe_disk w mount_point of
        (evs1, Inl e) \<Rightarrow> (evs1, Inl e)
      | (evs1, Inr disk) \<Rightarrow>
          if disk = [] then (evs1, Inr [])
          else (case path_exists w disk of
                  None \<Rightarrow> (evs1, Inl OSError)
                | Some False \<Rightarrow> (evs1, Inr [])
                | Some True \<Rightarrow>
                    (case query_symlinks w disk of
                       (evs2, devices) \<Rightarrow>
                         (let by_id = filter (py_in ''disk/by-id'') devices;
                              idevs = (if by_id \<noteq> [] then hd (sort by_id) else disk)
                          in (evs1 @ evs2 @
                              [LogDebug ''considering these device symlinks: %s'',
                               LogDebug ''filtered to these disk/by-id symlinks: %s'',
                               LogDebug ''selected %s''],
                              Inr idevs)))))"

subsection \<open>\<open>is_efi_booted\<close>\<close>

definition is_efi_booted :: "world \<Rightarrow> event list \<times> bool" where
  "is_efi_booted w =
     (case path_exists w ''/sys/firmware/efi'' of
        Some b \<Rightarrow> ([], b)
      | None \<Rightarrow>
          ([LogError ''Failed to determine if system is booted in EFI mode: %s''], False))"

subsection \<open>\<open>get_debconf_owner\<close>\<close>

definition valid_efi_owners :: "string list" where
  "valid_efi_owners = [''grub-efi-amd64'', ''grub-efi-arm64'', ''grub-efi-ia32'']"

text \<open>The loop of lines 172 to 174 over the lines of the output.\<close>

fun scan_owners :: "string list \<Rightarrow> string option" where
  "scan_owners [] = None"
| "scan_owners (line # rest) =
     (if py_strip line \<in> set valid_efi_owners then Some (py_strip line)
      else scan_owners rest)"

definition get_debconf_owner :: "world \<Rightarrow> event list \<times> string option" where
  "get_debconf_owner w =
     (case is_efi_booted w of
        (evs0, False) \<Rightarrow> (evs0, Some ''grub-pc'')
      | (evs0, True) \<Rightarrow>
          (let cmd = [''debconf-show'', ''--listowners'']
           in case subp w cmd None of
                Inr (output, err) \<Rightarrow> (evs0 @ [Subp cmd None], scan_owners (py_splitlines output))
              | Inl e \<Rightarrow>
                  (evs0 @ [Subp cmd None,
                           Logexc ''Failed to run debconf-set-selections for grub-dpkg: %s''],
                   None)))"

subsection \<open>\<open>get_debconf_config\<close>\<close>

text \<open>
  Lines 190 to 195 and lines 199 to 201: the device identifier of one branch, the
  configured entry when the key is present, and otherwise what \<open>fetch_idevs\<close> finds
  for the mount point.
\<close>

definition resolve_idevs ::
  "world \<Rightarrow> Config \<Rightarrow> string \<Rightarrow> string \<Rightarrow> event list \<times> (exn + string)" where
  "resolve_idevs w mycfg key mount_point =
     (case get_cfg_option_str mycfg key None of
        Some idevs \<Rightarrow> ([], Inr idevs)
      | None \<Rightarrow> fetch_idevs w mount_point)"

definition get_debconf_config :: "world \<Rightarrow> Config \<Rightarrow> event list \<times> (exn + string option)" where
  "get_debconf_config w mycfg =
     (case is_efi_booted w of
        (evs0, True) \<Rightarrow>
          (case get_debconf_owner w of
             (evs1, None) \<Rightarrow> (evs0 @ evs1, Inr None)
           | (evs1, Some owner) \<Rightarrow>
               (case resolve_idevs w mycfg ''grub-efi/install_devices'' ''/boot/efi'' of
                  (evs2, Inl e) \<Rightarrow> (evs0 @ evs1 @ evs2, Inl e)
                | (evs2, Inr idevs) \<Rightarrow>
                    (evs0 @ evs1 @ evs2,
                     Inr (Some (owner @ '' grub-efi/install_devices string '' @ idevs
                                @ ''\<newline>'')))))
      | (evs0, False) \<Rightarrow>
          (case resolve_idevs w mycfg ''grub-pc/install_devices'' ''/boot'' of
             (evs1, Inl e) \<Rightarrow> (evs0 @ evs1, Inl e)
           | (evs1, Inr idevs) \<Rightarrow>
               (let idevs_empty =
                      (case dict_get mycfg ''grub-pc/install_devices_empty'' PNone of
                         PNone \<Rightarrow> idevs = []
                       | PBool b \<Rightarrow> b
                       | v \<Rightarrow> translate_bool v)
                in (evs0 @ evs1,
                    Inr (Some (''grub-pc grub-pc/install_devices string '' @ idevs
                               @ ''\<newline>''
                               @ ''grub-pc grub-pc/install_devices_empty boolean ''
                               @ py_lower (py_str (PBool idevs_empty)) @ ''\<newline>''))))))"

subsection \<open>\<open>handle\<close>\<close>

text \<open>
  Lines 137 to 161. An entry of the document that is true and not a mapping has no
  \<open>get\<close>, and the lookup of \<open>enabled\<close> raises \<open>AttributeError\<close>.
\<close>

definition handle :: "world \<Rightarrow> string \<Rightarrow> (string \<times> pyval) list \<Rightarrow> event list \<times> (exn + unit)" where
  "handle w name cfg =
     (let found = dict_get cfg ''grub_dpkg'' (dict_get cfg ''grub-dpkg'' (Dict []));
          section_cfg = (if \<not> truthy found then Dict [] else found)
      in case section_cfg of
           Scalar v \<Rightarrow> ([], Inl AttributeError)
         | Dict mycfg \<Rightarrow>
             (let enabled = dict_get mycfg ''enabled'' (PBool True)
              in if is_false enabled
                 then ([LogDebug ''%s disabled by config grub_dpkg/enabled=%s''], Inr ())
                 else (case get_debconf_config w mycfg of
                         (evs, Inl e) \<Rightarrow> (evs, Inl e)
                       | (evs, Inr None) \<Rightarrow>
                           (evs @ [LogDebug ''%s no debconf config returned''], Inr ())
                       | (evs, Inr (Some dconf_sel)) \<Rightarrow>
                           (let cmd = [''debconf-set-selections'']
                            in (evs @
                                [LogDebug (''Setting grub debconf-set-selections with '%s'' @ [CHR 0x27]),
                                 Subp cmd (Some dconf_sel)] @
                                (case subp w cmd (Some dconf_sel) of
                                   Inr r \<Rightarrow> []
                                 | Inl e \<Rightarrow>
                                     [Logexc ''Failed to run debconf-set-selections for grub-dpkg: %s'']),
                                Inr ())))))"

section \<open>Observing a run\<close>

text \<open>The argument lists of the commands a run invokes, in order.\<close>

fun invoked :: "event list \<Rightarrow> string list list" where
  "invoked [] = []"
| "invoked (Subp args data # evs) = args # invoked evs"
| "invoked (ev # evs) = invoked evs"

section \<open>Machines for the examples\<close>

text \<open>
  A machine whose firmware path exists or not, on which every other path exists, and
  whose three query commands answer as given; every other command succeeds with empty
  output.
\<close>

definition machine ::
  "bool \<Rightarrow> exn + string \<times> string \<Rightarrow> exn + string \<times> string \<Rightarrow> exn + string \<times> string \<Rightarrow> world" where
  "machine efi probe links owners =
     \<lparr> path_exists = (\<lambda>p. Some (if p = ''/sys/firmware/efi'' then efi else True)),
       subp = (\<lambda>args data.
         if take 1 args = [''grub-probe''] then probe
         else if take 1 args = [''udevadm''] then links
         else if take 1 args = [''debconf-show''] then owners
         else Inr ([], [])) \<rparr>"

text \<open>
  A BIOS machine whose \<open>/boot\<close> is on \<open>/dev/sdb\<close>, a disk with one by-path and
  two by-id symlinks.
\<close>

definition example_links :: string where
  "example_links =
     ''/dev/disk/by-path/pci-0:1 /dev/disk/by-id/wwn-0x5 /dev/disk/by-id/ata-XYZ\<newline>''"

definition bios_machine :: world where
  "bios_machine = machine False (Inr (''/dev/sdb\<newline>'', [])) (Inr (example_links, [])) (Inr ([], []))"

text \<open>An EFI machine with the same disk, whose owner listing answers as given.\<close>

definition efi_machine :: "exn + string \<times> string \<Rightarrow> world" where
  "efi_machine owners = machine True (Inr (''/dev/sdb\<newline>'', [])) (Inr (example_links, [])) owners"

text \<open>
  A BIOS machine on which \<open>grub-probe\<close> exits with an error that is neither a missing
  executable nor the canonical-path message.
\<close>

definition probe_error :: exn where
  "probe_error = ProcessExecutionError False ''grub-probe: error: unknown filesystem.''"

definition broken_probe_machine :: world where
  "broken_probe_machine = machine False (Inl probe_error) (Inr ([], [])) (Inr ([], []))"

section \<open>Facts about the string functions\<close>

lemma py_in_sublist: "py_in sub s = sublist sub s"
  by (induction s) (simp_all add: sublist_Cons_right)

section \<open>Facts about the module\<close>

lemma invoked_append: "invoked (xs @ ys) = invoked xs @ invoked ys"
  by (induction xs rule: invoked.induct) simp_all

lemma hd_sort_Min: "xs \<noteq> [] \<Longrightarrow> hd (sort xs) = Min (set xs)"
proof -
  assume ne: "xs \<noteq> []"
  define ys where "ys = sort xs"
  have s: "sorted ys" and e: "set ys = set xs" by (simp_all add: ys_def)
  from ne e have "ys \<noteq> []" by auto
  then obtain y zs where yz: "ys = y # zs" by (cases ys) auto
  with s have "\<forall>z\<in>set zs. y \<le> z" by simp
  then have "Min (set ys) = y" unfolding yz by (simp add: Min_insert2)
  with yz e show ?thesis by (simp add: ys_def)
qed

lemma scan_owners_find:
  "scan_owners ls = List.find (\<lambda>l. l \<in> set valid_efi_owners) (map py_strip ls)"
  by (induction ls) simp_all

lemma lower_str_bool: "py_lower (py_str (PBool b)) = (if b then ''true'' else ''false'')"
proof (cases b)
  case True
  have "py_lower (py_str (PBool True)) = ''true''" by code_simp
  with True show ?thesis by simp
next
  case False
  have "py_lower (py_str (PBool False)) = ''false''" by code_simp
  with False show ?thesis by simp
qed

lemma probe_disk_invoked:
  "invoked (fst (probe_disk w mp)) = [[''grub-probe'', ''-t'', ''disk'', mp]]"
  by (simp add: probe_disk_def Let_def split: sum.split exn.split prod.split)

lemma query_symlinks_invoked:
  "invoked (fst (query_symlinks w d)) = [[''udevadm'', ''info'', ''--root'', ''--query=symlink'', d]]"
  by (simp add: query_symlinks_def Let_def split: sum.split prod.split)

lemma fetch_idevs_invoked:
  "set (invoked (fst (fetch_idevs w mp))) \<subseteq>
     {[''grub-probe'', ''-t'', ''disk'', mp]} \<union>
     range (\<lambda>d. [''udevadm'', ''info'', ''--root'', ''--query=symlink'', d])"
proof -
  obtain evs1 r where p: "probe_disk w mp = (evs1, r)"
    by (cases "probe_disk w mp")
  with probe_disk_invoked [of w mp]
  have i1: "invoked evs1 = [[''grub-probe'', ''-t'', ''disk'', mp]]" by simp
  show ?thesis
  proof (cases r)
    case (Inl e)
    with p i1 show ?thesis by (simp add: fetch_idevs_def)
  next
    case (Inr disk)
    obtain evs2 devs where q: "query_symlinks w disk = (evs2, devs)"
      by (cases "query_symlinks w disk")
    with query_symlinks_invoked [of w disk]
    have i2: "invoked evs2 = [[''udevadm'', ''info'', ''--root'', ''--query=symlink'', disk]]"
      by simp
    from p Inr q i1 i2 show ?thesis
      by (auto simp: fetch_idevs_def invoked_append Let_def split: option.splits bool.splits)
  qed
qed

lemma is_efi_booted_invoked: "invoked (fst (is_efi_booted w)) = []"
  by (simp add: is_efi_booted_def split: option.split)

lemma resolve_idevs_invoked:
  "set (invoked (fst (resolve_idevs w mycfg key mp))) \<subseteq>
     {[''grub-probe'', ''-t'', ''disk'', mp]} \<union>
     range (\<lambda>d. [''udevadm'', ''info'', ''--root'', ''--query=symlink'', d])"
  using fetch_idevs_invoked [of w mp]
  by (simp add: resolve_idevs_def split: option.split)

lemma get_debconf_owner_bios:
  assumes "snd (is_efi_booted w) = False"
  shows "get_debconf_owner w = (fst (is_efi_booted w), Some ''grub-pc'')"
  using assms by (cases "is_efi_booted w") (simp add: get_debconf_owner_def)

lemma get_debconf_owner_efi:
  assumes "snd (is_efi_booted w) = True"
  shows "get_debconf_owner w =
     (case subp w [''debconf-show'', ''--listowners''] None of
        Inr (output, err) \<Rightarrow>
          (fst (is_efi_booted w) @ [Subp [''debconf-show'', ''--listowners''] None],
           scan_owners (py_splitlines output))
      | Inl e \<Rightarrow>
          (fst (is_efi_booted w) @
           [Subp [''debconf-show'', ''--listowners''] None,
            Logexc ''Failed to run debconf-set-selections for grub-dpkg: %s''], None))"
  using assms by (cases "is_efi_booted w") (simp add: get_debconf_owner_def Let_def split: sum.split)

lemma get_debconf_owner_invoked:
  "set (invoked (fst (get_debconf_owner w))) \<subseteq> {[''debconf-show'', ''--listowners'']}"
proof (cases "snd (is_efi_booted w)")
  case True
  then show ?thesis
    by (simp add: get_debconf_owner_efi invoked_append is_efi_booted_invoked
        split: sum.split prod.split)
next
  case False
  then show ?thesis
    by (simp add: get_debconf_owner_bios is_efi_booted_invoked)
qed

lemma get_debconf_config_bios:
  assumes "snd (is_efi_booted w) = False"
  shows "get_debconf_config w mycfg =
     (case resolve_idevs w mycfg ''grub-pc/install_devices'' ''/boot'' of
        (evs1, Inl e) \<Rightarrow> (fst (is_efi_booted w) @ evs1, Inl e)
      | (evs1, Inr idevs) \<Rightarrow>
          (fst (is_efi_booted w) @ evs1,
           Inr (Some (''grub-pc grub-pc/install_devices string '' @ idevs @ ''\<newline>''
              @ ''grub-pc grub-pc/install_devices_empty boolean ''
              @ (if (case dict_get mycfg ''grub-pc/install_devices_empty'' PNone of
                       PNone \<Rightarrow> idevs = [] | PBool b \<Rightarrow> b | v \<Rightarrow> translate_bool v)
                 then ''true'' else ''false'') @ ''\<newline>''))))"
  using assms
  by (cases "is_efi_booted w")
     (simp add: get_debconf_config_def Let_def lower_str_bool split: prod.split sum.split)

lemma get_debconf_config_efi:
  assumes "snd (is_efi_booted w) = True"
  shows "get_debconf_config w mycfg =
     (case get_debconf_owner w of
        (evs1, None) \<Rightarrow> (fst (is_efi_booted w) @ evs1, Inr None)
      | (evs1, Some owner) \<Rightarrow>
          (case resolve_idevs w mycfg ''grub-efi/install_devices'' ''/boot/efi'' of
             (evs2, Inl e) \<Rightarrow> (fst (is_efi_booted w) @ evs1 @ evs2, Inl e)
           | (evs2, Inr idevs) \<Rightarrow>
               (fst (is_efi_booted w) @ evs1 @ evs2,
                Inr (Some (owner @ '' grub-efi/install_devices string '' @ idevs
                           @ ''\<newline>'')))))"
  using assms
  by (cases "is_efi_booted w")
     (simp add: get_debconf_config_def split: prod.split option.split sum.split)

lemma probe_disk_ok:
  assumes "subp w [''grub-probe'', ''-t'', ''disk'', mp] None = Inr (out, err)"
  shows "probe_disk w mp = ([Subp [''grub-probe'', ''-t'', ''disk'', mp] None], Inr (py_strip out))"
  using assms by (simp add: probe_disk_def)

lemma probe_disk_Inr:
  assumes "snd (probe_disk w mp) = Inr disk"
  shows "disk = [] \<or>
     (\<exists>out err. subp w [''grub-probe'', ''-t'', ''disk'', mp] None = Inr (out, err) \<and>
        disk = py_strip out)"
  using assms by (auto simp: probe_disk_def Let_def split: sum.splits exn.splits if_splits)

lemma query_symlinks_devices:
  "snd (query_symlinks w disk) =
     (case subp w [''udevadm'', ''info'', ''--root'', ''--query=symlink'', disk] None of
        Inr (out, err) \<Rightarrow> py_split (py_strip out) | Inl e \<Rightarrow> [])"
  by (simp add: query_symlinks_def split: sum.split prod.split)

lemma fetch_idevs_found:
  assumes "snd (probe_disk w mp) = Inr disk" and "disk \<noteq> []"
      and "path_exists w disk = Some True"
  shows "snd (fetch_idevs w mp) =
     Inr (if filter (py_in ''disk/by-id'') (snd (query_symlinks w disk)) \<noteq> []
          then hd (sort (filter (py_in ''disk/by-id'') (snd (query_symlinks w disk))))
          else disk)"
  using assms
  by (cases "probe_disk w mp"; cases "query_symlinks w disk")
     (simp add: fetch_idevs_def Let_def)

lemma fetch_idevs_Inr:
  assumes "snd (fetch_idevs w mp) = Inr v"
  shows "v = [] \<or>
     (\<exists>disk. snd (probe_disk w mp) = Inr disk \<and> disk \<noteq> [] \<and> path_exists w disk = Some True)"
  using assms
  by (cases "probe_disk w mp")
     (auto simp: fetch_idevs_def Let_def split: sum.splits option.splits bool.splits if_splits prod.splits)

lemmas eval_defs =
  bios_machine_def machine_def example_links_def py_strip_def py_split_def isspace_def
  fetch_idevs_def probe_disk_def query_symlinks_def is_efi_booted_def

lemma resolve_idevs_result:
  "snd (resolve_idevs w mycfg key mp) =
     (case map_of mycfg key of Some v \<Rightarrow> Inr (py_str v) | None \<Rightarrow> snd (fetch_idevs w mp))"
  by (simp add: resolve_idevs_def get_cfg_option_str_def split: option.split)

lemma get_debconf_config_bios_result:
  assumes "snd (is_efi_booted w) = False"
  shows "snd (get_debconf_config w mycfg) =
     (case snd (resolve_idevs w mycfg ''grub-pc/install_devices'' ''/boot'') of
        Inl e \<Rightarrow> Inl e
      | Inr idevs \<Rightarrow>
          Inr (Some (''grub-pc grub-pc/install_devices string '' @ idevs @ ''\<newline>''
              @ ''grub-pc grub-pc/install_devices_empty boolean ''
              @ (if (case dict_get mycfg ''grub-pc/install_devices_empty'' PNone of
                       PNone \<Rightarrow> idevs = [] | PBool b \<Rightarrow> b | v \<Rightarrow> translate_bool v)
                 then ''true'' else ''false'') @ ''\<newline>'')))"
  by (simp add: get_debconf_config_bios [OF assms] split: prod.split sum.split)

lemma get_debconf_config_efi_result:
  assumes "snd (is_efi_booted w) = True"
  shows "snd (get_debconf_config w mycfg) =
     (case snd (get_debconf_owner w) of
        None \<Rightarrow> Inr None
      | Some owner \<Rightarrow>
          (case snd (resolve_idevs w mycfg ''grub-efi/install_devices'' ''/boot/efi'') of
             Inl e \<Rightarrow> Inl e
           | Inr idevs \<Rightarrow>
               Inr (Some (owner @ '' grub-efi/install_devices string '' @ idevs
                          @ ''\<newline>''))))"
  by (simp add: get_debconf_config_efi [OF assms] split: prod.split sum.split option.split)

lemma handle_section:
  assumes "dict_get cfg ''grub_dpkg'' (dict_get cfg ''grub-dpkg'' (Dict [])) = found"
      and "found = Dict mycfg \<or> (\<not> truthy found \<and> mycfg = [])"
  shows "handle w name cfg =
     (if is_false (dict_get mycfg ''enabled'' (PBool True))
      then ([LogDebug ''%s disabled by config grub_dpkg/enabled=%s''], Inr ())
      else (case get_debconf_config w mycfg of
              (evs, Inl e) \<Rightarrow> (evs, Inl e)
            | (evs, Inr None) \<Rightarrow>
                (evs @ [LogDebug ''%s no debconf config returned''], Inr ())
            | (evs, Inr (Some dconf_sel)) \<Rightarrow>
                (evs @
                 [LogDebug (''Setting grub debconf-set-selections with '%s'' @ [CHR 0x27]),
                  Subp [''debconf-set-selections''] (Some dconf_sel)] @
                 (case subp w [''debconf-set-selections''] (Some dconf_sel) of
                    Inr r \<Rightarrow> []
                  | Inl e \<Rightarrow>
                      [Logexc ''Failed to run debconf-set-selections for grub-dpkg: %s'']),
                 Inr ())))"
proof -
  from assms(2) have "(if \<not> truthy found then Dict [] else found) = Dict mycfg"
    by auto
  with assms(1) show ?thesis
    by (simp add: handle_def Let_def split: prod.split sum.split option.split)
qed

lemma handle_invoked_setter:
  assumes "\<And>mycfg. \<exists>evs. get_debconf_config w mycfg = (evs, Inr None) \<and>
             [''debconf-set-selections''] \<notin> set (invoked evs)"
  shows "[''debconf-set-selections''] \<notin> set (invoked (fst (handle w name cfg)))"
proof -
  define found where "found = dict_get cfg ''grub_dpkg'' (dict_get cfg ''grub-dpkg'' (Dict []))"
  define sec where "sec = (if \<not> truthy found then Dict [] else found)"
  show ?thesis
  proof (cases sec)
    case (Scalar v)
    then show ?thesis
      by (simp add: handle_def Let_def found_def [symmetric] sec_def [symmetric])
  next
    case (Dict mycfg)
    from assms [of mycfg] obtain evs where
      g: "get_debconf_config w mycfg = (evs, Inr None)"
      and n: "[''debconf-set-selections''] \<notin> set (invoked evs)" by auto
    from Dict g n show ?thesis
      by (simp add: handle_def Let_def found_def [symmetric] sec_def [symmetric] invoked_append)
  qed
qed

lemma fetch_idevs_reraises:
  assumes "subp w [''grub-probe'', ''-t'', ''disk'', mp] None = Inl (ProcessExecutionError False stderr)"
      and "\<not> py_in ''failed to get canonical path'' stderr"
  shows "fetch_idevs w mp =
           ([Subp [''grub-probe'', ''-t'', ''disk'', mp] None],
            Inl (ProcessExecutionError False stderr))"
  using assms by (simp add: fetch_idevs_def probe_disk_def)

lemma bios_machine_bios: "is_efi_booted bios_machine = ([], False)"
  by (simp add: is_efi_booted_def bios_machine_def machine_def)

lemma efi_machine_efi: "is_efi_booted (efi_machine owners) = ([], True)"
  by (simp add: is_efi_booted_def efi_machine_def machine_def)

lemma bios_machine_fetch: "snd (fetch_idevs bios_machine ''/boot'') = Inr ''/dev/disk/by-id/ata-XYZ''"
  by (simp add: eval_defs)

lemma efi_machine_fetch:
  "snd (fetch_idevs (efi_machine owners) ''/boot/efi'') = Inr ''/dev/disk/by-id/ata-XYZ''"
  by (simp add: efi_machine_def eval_defs)

lemma efi_machine_owner_amd64:
  "get_debconf_owner (efi_machine (Inr (''grub-efi-amd64\<newline>'', []))) =
     ([Subp [''debconf-show'', ''--listowners''] None], Some ''grub-efi-amd64'')"
  by (simp add: get_debconf_owner_def efi_machine_efi)
     (simp add: efi_machine_def machine_def py_splitlines_def islinebreak_def py_strip_def
        isspace_def valid_efi_owners_def)

section \<open>The claims\<close>

text \<open>
  Claim C1 says that a probe failure which is neither a missing executable nor the
  canonical-path message is logged, caught by an enclosing handler, and turned into an
  empty identifier, so that the module completes without raising. The code does not do
  this: the \<open>raise\<close> of line 90 stands inside the handler of \<open>ProcessExecutionError\<close>,
  where the \<open>except Exception\<close> clause of the same statement (line 91) does not reach
  it, and neither \<open>get_debconf_config\<close> nor \<open>handle\<close> guards the call. On a BIOS
  machine with an empty configuration, where \<open>grub-probe\<close> fails with
  \<open>grub-probe: error: unknown filesystem.\<close>, \<open>handle\<close> logs nothing, invokes no
  further command and ends with the \<open>ProcessExecutionError\<close>.
\<close>

theorem unexpected_probe_failure_leaves_handle:
  "handle broken_probe_machine ''grub_dpkg'' [] =
     ([Subp [''grub-probe'', ''-t'', ''disk'', ''/boot''] None], Inl probe_error)"
proof -
  have e: "is_efi_booted broken_probe_machine = ([], False)"
    by (simp add: is_efi_booted_def broken_probe_machine_def machine_def)
  have p: "subp broken_probe_machine [''grub-probe'', ''-t'', ''disk'', ''/boot''] None
             = Inl (ProcessExecutionError False ''grub-probe: error: unknown filesystem.'')"
    by (simp add: broken_probe_machine_def machine_def probe_error_def)
  have n: "\<not> py_in ''failed to get canonical path'' ''grub-probe: error: unknown filesystem.''"
    by simp
  have "get_debconf_config broken_probe_machine [] =
          ([Subp [''grub-probe'', ''-t'', ''disk'', ''/boot''] None], Inl probe_error)"
    by (simp add: get_debconf_config_def e resolve_idevs_def get_cfg_option_str_def
        fetch_idevs_reraises [OF p n] probe_error_def)
  then show ?thesis
    by (simp add: handle_def dict_get_def is_false_def)
qed

text \<open>
  Claim C2. In BIOS mode, when the configuration has no key
  \<open>grub-pc/install_devices_empty\<close>, the boolean of the second line is \<open>true\<close> exactly
  when the resolved device identifier is the empty string, and \<open>false\<close> otherwise. The
  resolved identifier is the configured \<open>grub-pc/install_devices\<close> entry when that key
  is present and the result of \<open>fetch_idevs\<close> for \<open>/boot\<close> otherwise; when
  \<open>fetch_idevs\<close> raises, so does \<open>get_debconf_config\<close>. In particular a configured
  empty string yields \<open>true\<close>.
\<close>

theorem install_devices_empty_default:
  assumes "snd (is_efi_booted w) = False"
      and "map_of mycfg ''grub-pc/install_devices_empty'' = None"
  shows "snd (get_debconf_config w mycfg) =
     (case (case map_of mycfg ''grub-pc/install_devices'' of
              Some v \<Rightarrow> Inr (py_str v)
            | None \<Rightarrow> snd (fetch_idevs w ''/boot'')) of
        Inl e \<Rightarrow> Inl e
      | Inr idevs \<Rightarrow>
          Inr (Some (''grub-pc grub-pc/install_devices string '' @ idevs @ ''\<newline>''
              @ ''grub-pc grub-pc/install_devices_empty boolean ''
              @ (if idevs = [] then ''true'' else ''false'') @ ''\<newline>'')))"
  using assms(2)
  by (simp add: get_debconf_config_bios_result [OF assms(1)] resolve_idevs_result dict_get_def
      split: sum.split)

theorem install_devices_empty_default_witness:
  "snd (get_debconf_config bios_machine [(''grub-pc/install_devices'', PStr [])]) =
     Inr (Some ''grub-pc grub-pc/install_devices string \<newline>grub-pc grub-pc/install_devices_empty boolean true\<newline>'') \<and>
   snd (get_debconf_config bios_machine []) =
     Inr (Some ''grub-pc grub-pc/install_devices string /dev/disk/by-id/ata-XYZ\<newline>grub-pc grub-pc/install_devices_empty boolean false\<newline>'')"
proof -
  have h: "snd (is_efi_booted bios_machine) = False" by (simp add: bios_machine_bios)
  have a: "map_of [(''grub-pc/install_devices'', PStr [])] ''grub-pc/install_devices_empty'' = None"
    by simp
  have b: "map_of ([] :: Config) ''grub-pc/install_devices_empty'' = None" by simp
  from install_devices_empty_default [OF h a] install_devices_empty_default [OF h b]
  show ?thesis by (simp add: bios_machine_fetch)
qed

text \<open>
  Claim C3. Whenever the probe finds a disk that exists and the symlink query answers with
  a list of aliases: if at least one alias contains \<open>disk/by-id\<close>, \<open>fetch_idevs\<close>
  returns such an alias, and it is the smallest of them in the lexicographic order; if no
  alias contains it, \<open>fetch_idevs\<close> returns the probed disk path itself.
\<close>

theorem fetch_idevs_smallest_by_id:
  assumes "subp w [''grub-probe'', ''-t'', ''disk'', mount_point] None = Inr (out, err)"
      and "disk = py_strip out" and "disk \<noteq> []" and "path_exists w disk = Some True"
      and "subp w [''udevadm'', ''info'', ''--root'', ''--query=symlink'', disk] None
             = Inr (out', err')"
      and "devices = py_split (py_strip out')"
  shows "\<exists>idevs. snd (fetch_idevs w mount_point) = Inr idevs \<and>
     (if \<exists>d \<in> set devices. py_in ''disk/by-id'' d
      then idevs \<in> set devices \<and> py_in ''disk/by-id'' idevs \<and>
           (\<forall>d \<in> set devices. py_in ''disk/by-id'' d \<longrightarrow> idevs \<le> d)
      else idevs = disk)"
proof -
  define by_id where "by_id = filter (py_in ''disk/by-id'') devices"
  have mem: "set by_id = {d \<in> set devices. py_in ''disk/by-id'' d}"
    by (simp add: by_id_def)
  from assms(1,2) have p: "snd (probe_disk w mount_point) = Inr disk"
    by (simp add: probe_disk_ok)
  from assms(5,6) have q: "snd (query_symlinks w disk) = devices"
    by (simp add: query_symlinks_devices)
  from fetch_idevs_found [OF p assms(3,4)] q
  have r: "snd (fetch_idevs w mount_point) = Inr (if by_id \<noteq> [] then hd (sort by_id) else disk)"
    by (simp add: by_id_def)
  show ?thesis
  proof (cases "by_id = []")
    case True
    with mem have "\<not> (\<exists>d \<in> set devices. py_in ''disk/by-id'' d)" by auto
    with r True show ?thesis by simp
  next
    case False
    then have m: "hd (sort by_id) = Min (set by_id)" by (rule hd_sort_Min)
    from False have ne: "set by_id \<noteq> {}" by simp
    then have "Min (set by_id) \<in> set by_id" by (intro Min_in) simp_all
    moreover have "\<forall>d \<in> set by_id. Min (set by_id) \<le> d" by (simp add: Min_le)
    moreover from ne mem have "\<exists>d \<in> set devices. py_in ''disk/by-id'' d" by auto
    ultimately show ?thesis using r m False mem by auto
  qed
qed

theorem fetch_idevs_smallest_by_id_witness:
  "snd (fetch_idevs bios_machine ''/boot'') = Inr ''/dev/disk/by-id/ata-XYZ''"
proof -
  have h1: "subp bios_machine [''grub-probe'', ''-t'', ''disk'', ''/boot''] None
              = Inr (''/dev/sdb\<newline>'', [])"
    by (simp add: bios_machine_def machine_def)
  have h2: "''/dev/sdb'' = py_strip ''/dev/sdb\<newline>''"
    by (simp add: py_strip_def isspace_def)
  have h3: "''/dev/sdb'' \<noteq> []" by simp
  have h4: "path_exists bios_machine ''/dev/sdb'' = Some True"
    by (simp add: bios_machine_def machine_def)
  have h5: "subp bios_machine [''udevadm'', ''info'', ''--root'', ''--query=symlink'', ''/dev/sdb''] None
              = Inr (example_links, [])"
    by (simp add: bios_machine_def machine_def)
  have h6: "[''/dev/disk/by-path/pci-0:1'', ''/dev/disk/by-id/wwn-0x5'', ''/dev/disk/by-id/ata-XYZ'']
              = py_split (py_strip example_links)"
    by (simp add: example_links_def py_strip_def py_split_def isspace_def)
  from fetch_idevs_smallest_by_id [OF h1 h2 h3 h4 h5 h6]
  obtain idevs where r: "snd (fetch_idevs bios_machine ''/boot'') = Inr idevs"
    and m: "idevs \<in> set [''/dev/disk/by-path/pci-0:1'', ''/dev/disk/by-id/wwn-0x5'', ''/dev/disk/by-id/ata-XYZ'']"
           "py_in ''disk/by-id'' idevs"
           "idevs \<le> ''/dev/disk/by-id/ata-XYZ''"
    by (auto split: if_splits)
  from m have "idevs = ''/dev/disk/by-id/ata-XYZ''" by auto
  with r show ?thesis by simp
qed

text \<open>
  Claim C4. In EFI mode \<open>get_debconf_owner\<close> returns the first line of the output of
  the owner listing, in output order and trimmed, that is one of \<open>grub-efi-amd64\<close>,
  \<open>grub-efi-arm64\<close> and \<open>grub-efi-ia32\<close>, and \<open>None\<close> when no line is one of them or
  the listing fails. When it returns \<open>None\<close>, \<open>get_debconf_config\<close> returns \<open>None\<close>
  for every configuration, and \<open>handle\<close> never invokes \<open>debconf-set-selections\<close>.
\<close>

theorem efi_owner_first_match:
  assumes "snd (is_efi_booted w) = True"
  shows "snd (get_debconf_owner w) =
           (case subp w [''debconf-show'', ''--listowners''] None of
              Inr (output, err) \<Rightarrow>
                List.find (\<lambda>l. l \<in> {''grub-efi-amd64'', ''grub-efi-arm64'', ''grub-efi-ia32''})
                  (map py_strip (py_splitlines output))
            | Inl e \<Rightarrow> None) \<and>
         (snd (get_debconf_owner w) = None \<longrightarrow>
            snd (get_debconf_config w mycfg) = Inr None \<and>
            [''debconf-set-selections''] \<notin> set (invoked (fst (handle w name cfg))))"
proof -
  have a: "snd (get_debconf_owner w) =
           (case subp w [''debconf-show'', ''--listowners''] None of
              Inr (output, err) \<Rightarrow>
                List.find (\<lambda>l. l \<in> {''grub-efi-amd64'', ''grub-efi-arm64'', ''grub-efi-ia32''})
                  (map py_strip (py_splitlines output))
            | Inl e \<Rightarrow> None)"
    by (simp add: get_debconf_owner_efi [OF assms] scan_owners_find valid_efi_owners_def
        split: sum.split prod.split)
  have b: "snd (get_debconf_config w mycfg) = Inr None
           \<and> [''debconf-set-selections''] \<notin> set (invoked (fst (handle w name cfg)))"
    if none: "snd (get_debconf_owner w) = None"
  proof -
    have g: "\<exists>evs. get_debconf_config w c = (evs, Inr None) \<and>
               [''debconf-set-selections''] \<notin> set (invoked evs)" for c
    proof -
      obtain evs1 where o: "get_debconf_owner w = (evs1, None)"
        using none by (cases "get_debconf_owner w") simp
      with get_debconf_owner_invoked [of w]
      have "[''debconf-set-selections''] \<notin> set (invoked evs1)" by auto
      with o show ?thesis
        by (simp add: get_debconf_config_efi [OF assms] invoked_append is_efi_booted_invoked)
    qed
    from g [of mycfg] have "snd (get_debconf_config w mycfg) = Inr None" by auto
    moreover from g have "[''debconf-set-selections''] \<notin> set (invoked (fst (handle w name cfg)))"
      by (rule handle_invoked_setter)
    ultimately show ?thesis by simp
  qed
  from a b show ?thesis by blast
qed

theorem efi_owner_first_match_witness:
  "snd (get_debconf_owner
         (efi_machine (Inr (''debconf\<newline> grub-efi-arm64 \<newline>grub-efi-amd64\<newline>'', []))))
     = Some ''grub-efi-arm64'' \<and>
   snd (get_debconf_owner (efi_machine (Inl OtherException))) = None \<and>
   snd (get_debconf_config (efi_machine (Inl OtherException)) []) = Inr None \<and>
   [''debconf-set-selections'']
     \<notin> set (invoked (fst (handle (efi_machine (Inl OtherException)) ''grub_dpkg'' [])))"
proof -
  let ?m = "efi_machine (Inr (''debconf\<newline> grub-efi-arm64 \<newline>grub-efi-amd64\<newline>'', []))"
  let ?f = "efi_machine (Inl OtherException)"
  have h: "snd (is_efi_booted ?m) = True" and h': "snd (is_efi_booted ?f) = True"
    by (simp_all add: efi_machine_efi)
  have s: "subp ?m [''debconf-show'', ''--listowners''] None
             = Inr (''debconf\<newline> grub-efi-arm64 \<newline>grub-efi-amd64\<newline>'', [])"
    and s': "subp ?f [''debconf-show'', ''--listowners''] None = Inl OtherException"
    by (simp_all add: efi_machine_def machine_def)
  have l: "map py_strip (py_splitlines ''debconf\<newline> grub-efi-arm64 \<newline>grub-efi-amd64\<newline>'')
             = [''debconf'', ''grub-efi-arm64'', ''grub-efi-amd64'']"
    by (simp add: py_splitlines_def islinebreak_def py_strip_def isspace_def)
  from efi_owner_first_match [OF h, of "[]" "''grub_dpkg''" "[]"]
  have a: "snd (get_debconf_owner ?m) = Some ''grub-efi-arm64''"
    by (simp add: s l)
  from efi_owner_first_match [OF h', of "[]" "''grub_dpkg''" "[]"]
  have b: "snd (get_debconf_owner ?f) = None \<and>
           snd (get_debconf_config ?f []) = Inr None \<and>
           [''debconf-set-selections''] \<notin> set (invoked (fst (handle ?f ''grub_dpkg'' [])))"
    by (simp add: s')
  from a b show ?thesis by simp
qed

text \<open>
  Claim C5. In BIOS mode, whenever the device identifier resolves, the directive is the
  line \<open>grub-pc grub-pc/install_devices string\<close> with the identifier, followed by the
  line \<open>grub-pc grub-pc/install_devices_empty boolean\<close> with \<open>true\<close> or \<open>false\<close>
  in lower case, each line ended by a newline. The example of the claim, the configuration
  \<open>grub-pc/install_devices: /dev/sda\<close>, is the witness.
\<close>

theorem bios_directive_two_lines:
  assumes "snd (is_efi_booted w) = False"
  shows "case (case map_of mycfg ''grub-pc/install_devices'' of
                 Some v \<Rightarrow> Inr (py_str v)
               | None \<Rightarrow> snd (fetch_idevs w ''/boot'')) of
           Inl e \<Rightarrow> snd (get_debconf_config w mycfg) = Inl e
         | Inr idevs \<Rightarrow>
             (\<exists>b \<in> {''true'', ''false''}.
                snd (get_debconf_config w mycfg) =
                  Inr (Some (''grub-pc grub-pc/install_devices string '' @ idevs @ ''\<newline>''
                      @ ''grub-pc grub-pc/install_devices_empty boolean '' @ b @ ''\<newline>'')))"
  by (simp add: get_debconf_config_bios_result [OF assms] resolve_idevs_result
      split: sum.split)

theorem bios_directive_two_lines_witness:
  "snd (get_debconf_config bios_machine [(''grub-pc/install_devices'', PStr ''/dev/sda'')]) =
     Inr (Some ''grub-pc grub-pc/install_devices string /dev/sda\<newline>grub-pc grub-pc/install_devices_empty boolean false\<newline>'')"
proof -
  have h: "snd (is_efi_booted bios_machine) = False" by (simp add: bios_machine_bios)
  from bios_directive_two_lines [OF h, of "[(''grub-pc/install_devices'', PStr ''/dev/sda'')]"]
  show ?thesis
    by (simp add: get_debconf_config_bios_result [OF h] resolve_idevs_result dict_get_def)
qed

text \<open>
  Claim C6. In EFI mode with a resolved owner, the device identifier is the configured
  \<open>grub-efi/install_devices\<close> entry when that key is present, and otherwise the result
  of \<open>fetch_idevs\<close> for \<open>/boot/efi\<close>; the directive is the one line made of the owner,
  \<open>grub-efi/install_devices string\<close>, the identifier and a newline.
\<close>

theorem efi_directive_one_line:
  assumes "snd (is_efi_booted w) = True"
      and "snd (get_debconf_owner w) = Some owner"
  shows "snd (get_debconf_config w mycfg) =
     (case (case map_of mycfg ''grub-efi/install_devices'' of
              Some v \<Rightarrow> Inr (py_str v)
            | None \<Rightarrow> snd (fetch_idevs w ''/boot/efi'')) of
        Inl e \<Rightarrow> Inl e
      | Inr idevs \<Rightarrow>
          Inr (Some (owner @ '' grub-efi/install_devices string '' @ idevs @ ''\<newline>'')))"
  using assms(2)
  by (simp add: get_debconf_config_efi_result [OF assms(1)] resolve_idevs_result)

theorem efi_directive_one_line_witness:
  "snd (get_debconf_config (efi_machine (Inr (''grub-efi-amd64\<newline>'', [])))
         [(''grub-efi/install_devices'', PStr ''/dev/sda'')]) =
     Inr (Some ''grub-efi-amd64 grub-efi/install_devices string /dev/sda\<newline>'') \<and>
   snd (get_debconf_config (efi_machine (Inr (''grub-efi-amd64\<newline>'', []))) []) =
     Inr (Some ''grub-efi-amd64 grub-efi/install_devices string /dev/disk/by-id/ata-XYZ\<newline>'')"
proof -
  let ?m = "efi_machine (Inr (''grub-efi-amd64\<newline>'', []))"
  have h: "snd (is_efi_booted ?m) = True" by (simp add: efi_machine_efi)
  have o: "snd (get_debconf_owner ?m) = Some ''grub-efi-amd64''"
    by (simp add: efi_machine_owner_amd64)
  from efi_directive_one_line [OF h o, of "[(''grub-efi/install_devices'', PStr ''/dev/sda'')]"]
       efi_directive_one_line [OF h o, of "[]"]
  show ?thesis by (simp add: efi_machine_fetch)
qed

text \<open>
  Claim C7. In BIOS mode, when \<open>grub-pc/install_devices_empty\<close> is configured as one of
  the strings \<open>yes\<close>, \<open>true\<close> and \<open>1\<close>, the second line of the directive carries
  \<open>true\<close>, whatever identifier was configured or probed.
\<close>

theorem explicit_truthy_string_emits_true:
  assumes "snd (is_efi_booted w) = False"
      and "map_of mycfg ''grub-pc/install_devices_empty'' = Some (PStr v)"
      and "v = ''yes'' \<or> v = ''true'' \<or> v = ''1''"
  shows "snd (get_debconf_config w mycfg) =
     (case (case map_of mycfg ''grub-pc/install_devices'' of
              Some v \<Rightarrow> Inr (py_str v)
            | None \<Rightarrow> snd (fetch_idevs w ''/boot'')) of
        Inl e \<Rightarrow> Inl e
      | Inr idevs \<Rightarrow>
          Inr (Some (''grub-pc grub-pc/install_devices string '' @ idevs @ ''\<newline>''
              @ ''grub-pc grub-pc/install_devices_empty boolean true\<newline>'')))"
proof -
  from assms(3) have "translate_bool (PStr v) = True"
    by (auto simp: translate_bool_def)
  with assms(2) show ?thesis
    by (simp add: get_debconf_config_bios_result [OF assms(1)] resolve_idevs_result dict_get_def
        split: sum.split)
qed

theorem explicit_truthy_string_emits_true_witness:
  "snd (get_debconf_config bios_machine [(''grub-pc/install_devices_empty'', PStr ''yes'')]) =
     Inr (Some ''grub-pc grub-pc/install_devices string /dev/disk/by-id/ata-XYZ\<newline>grub-pc grub-pc/install_devices_empty boolean true\<newline>'')"
proof -
  have h: "snd (is_efi_booted bios_machine) = False" by (simp add: bios_machine_bios)
  have a: "map_of [(''grub-pc/install_devices_empty'', PStr ''yes'')]
             ''grub-pc/install_devices_empty'' = Some (PStr ''yes'')" by simp
  have v: "''yes'' = ''yes'' \<or> ''yes'' = ''true'' \<or> ''yes'' = ''1''" by simp
  from explicit_truthy_string_emits_true [OF h a v] show ?thesis
    by (simp add: bios_machine_fetch)
qed

text \<open>
  Claim C8. The configuration of the module is the entry \<open>grub_dpkg\<close> of the document,
  or the entry \<open>grub-dpkg\<close> when \<open>grub_dpkg\<close> is absent; it is a mapping, or a false
  object that is read as the empty mapping. When its \<open>enabled\<close> entry is present and
  \<open>util.is_false\<close> holds of it, \<open>handle\<close> logs one line and returns, invoking no
  command. Otherwise, and so when \<open>enabled\<close> is absent, \<open>handle\<close> goes on with
  \<open>get_debconf_config\<close> on that mapping: it raises what \<open>get_debconf_config\<close> raises,
  stops without a further command when there is no directive, and hands a directive to
  \<open>debconf-set-selections\<close>.
\<close>

theorem enabled_by_default:
  assumes "(case map_of cfg ''grub_dpkg'' of
              Some v \<Rightarrow> v
            | None \<Rightarrow> (case map_of cfg ''grub-dpkg'' of Some v \<Rightarrow> v | None \<Rightarrow> Dict [])) = found"
      and "found = Dict mycfg \<or> (\<not> truthy found \<and> mycfg = [])"
  shows "if (case map_of mycfg ''enabled'' of None \<Rightarrow> False | Some v \<Rightarrow> is_false v)
         then handle w name cfg =
                ([LogDebug ''%s disabled by config grub_dpkg/enabled=%s''], Inr ())
         else prefix (fst (get_debconf_config w mycfg)) (fst (handle w name cfg)) \<and>
              (case snd (get_debconf_config w mycfg) of
                 Inl e \<Rightarrow> snd (handle w name cfg) = Inl e
               | Inr None \<Rightarrow>
                   snd (handle w name cfg) = Inr () \<and>
                   invoked (fst (handle w name cfg)) = invoked (fst (get_debconf_config w mycfg))
               | Inr (Some dconf_sel) \<Rightarrow>
                   snd (handle w name cfg) = Inr () \<and>
                   invoked (fst (handle w name cfg)) =
                     invoked (fst (get_debconf_config w mycfg)) @ [[''debconf-set-selections'']] \<and>
                   Subp [''debconf-set-selections''] (Some dconf_sel) \<in> set (fst (handle w name cfg)))"
proof -
  from assms(1) have f: "dict_get cfg ''grub_dpkg'' (dict_get cfg ''grub-dpkg'' (Dict [])) = found"
    by (simp add: dict_get_def split: option.splits)
  have e: "is_false (dict_get mycfg ''enabled'' (PBool True)) =
             (case map_of mycfg ''enabled'' of None \<Rightarrow> False | Some v \<Rightarrow> is_false v)"
    by (simp add: dict_get_def is_false_def split: option.split)
  note h = handle_section [OF f assms(2), of w name, unfolded e]
  show ?thesis
  proof (cases "case map_of mycfg ''enabled'' of None \<Rightarrow> False | Some v \<Rightarrow> is_false v")
    case True
    with h show ?thesis by simp
  next
    case False
    obtain evs r where g: "get_debconf_config w mycfg = (evs, r)"
      by (cases "get_debconf_config w mycfg")
    from False h g show ?thesis
      by (auto simp: invoked_append split: sum.split option.split)
  qed
qed

theorem enabled_by_default_witness:
  "handle bios_machine ''grub_dpkg'' [(''grub-dpkg'', Dict [(''enabled'', PBool False)])] =
     ([LogDebug ''%s disabled by config grub_dpkg/enabled=%s''], Inr ()) \<and>
   snd (handle bios_machine ''grub_dpkg'' []) = Inr () \<and>
   invoked (fst (handle bios_machine ''grub_dpkg'' [])) =
     [[''grub-probe'', ''-t'', ''disk'', ''/boot''],
      [''udevadm'', ''info'', ''--root'', ''--query=symlink'', ''/dev/sdb''],
      [''debconf-set-selections'']]"
proof -
  have f1: "(case map_of [(''grub-dpkg'', Dict [(''enabled'', PBool False)])] ''grub_dpkg'' of
               Some v \<Rightarrow> v
             | None \<Rightarrow>
                 (case map_of [(''grub-dpkg'', Dict [(''enabled'', PBool False)])] ''grub-dpkg'' of
                    Some v \<Rightarrow> v | None \<Rightarrow> Dict []))
            = Dict [(''enabled'', PBool False)]"
    by simp
  have g1: "Dict [(''enabled'', PBool False)] = Dict [(''enabled'', PBool False)] \<or>
            (\<not> truthy (Dict [(''enabled'', PBool False)]) \<and> [(''enabled'', PBool False)] = [])"
    by simp
  have f2: "(case map_of ([] :: (string \<times> pyval) list) ''grub_dpkg'' of
               Some v \<Rightarrow> v
             | None \<Rightarrow>
                 (case map_of ([] :: (string \<times> pyval) list) ''grub-dpkg'' of
                    Some v \<Rightarrow> v | None \<Rightarrow> Dict []))
            = Dict []"
    by simp
  have g2: "Dict [] = Dict ([] :: Config) \<or> (\<not> truthy (Dict []) \<and> ([] :: Config) = [])"
    by simp
  have c: "get_debconf_config bios_machine [] =
     ([Subp [''grub-probe'', ''-t'', ''disk'', ''/boot''] None,
       Subp [''udevadm'', ''info'', ''--root'', ''--query=symlink'', ''/dev/sdb''] None,
       LogDebug ''considering these device symlinks: %s'',
       LogDebug ''filtered to these disk/by-id symlinks: %s'',
       LogDebug ''selected %s''],
      Inr (Some ''grub-pc grub-pc/install_devices string /dev/disk/by-id/ata-XYZ\<newline>grub-pc grub-pc/install_devices_empty boolean false\<newline>''))"
    by (simp add: get_debconf_config_bios bios_machine_bios resolve_idevs_def
          get_cfg_option_str_def)
       (simp add: eval_defs dict_get_def)
  from enabled_by_default [OF f1 g1, of bios_machine "''grub_dpkg''"]
  have a: "handle bios_machine ''grub_dpkg'' [(''grub-dpkg'', Dict [(''enabled'', PBool False)])] =
     ([LogDebug ''%s disabled by config grub_dpkg/enabled=%s''], Inr ())"
    by (simp add: is_false_def)
  from enabled_by_default [OF f2 g2, of bios_machine "''grub_dpkg''"]
  have b: "snd (handle bios_machine ''grub_dpkg'' []) = Inr () \<and>
           invoked (fst (handle bios_machine ''grub_dpkg'' [])) =
             [[''grub-probe'', ''-t'', ''disk'', ''/boot''],
              [''udevadm'', ''info'', ''--root'', ''--query=symlink'', ''/dev/sdb''],
              [''debconf-set-selections'']]"
    by (simp add: c)
  from a b show ?thesis by simp
qed

text \<open>
  Claim C9. Whatever the outside world answers, a string that \<open>fetch_idevs\<close> returns is
  the empty string, or the probed disk path (the stripped output of the probe), or one of
  the aliases the symlink query listed for that disk that contains \<open>disk/by-id\<close>.
\<close>

theorem fetch_idevs_result_shapes:
  assumes "snd (fetch_idevs w mount_point) = Inr v"
  shows "v = [] \<or>
     (\<exists>out err. subp w [''grub-probe'', ''-t'', ''disk'', mount_point] None = Inr (out, err) \<and>
        (v = py_strip out \<or>
         (\<exists>out' err'.
            subp w [''udevadm'', ''info'', ''--root'', ''--query=symlink'', py_strip out] None
              = Inr (out', err') \<and>
            v \<in> set (py_split (py_strip out')) \<and> py_in ''disk/by-id'' v)))"
proof (cases "v = []")
  case True
  then show ?thesis by simp
next
  case False
  with fetch_idevs_Inr [OF assms] obtain disk where
    d: "snd (probe_disk w mount_point) = Inr disk" "disk \<noteq> []" "path_exists w disk = Some True"
    by auto
  with probe_disk_Inr [OF d(1)] obtain out err where
    o: "subp w [''grub-probe'', ''-t'', ''disk'', mount_point] None = Inr (out, err)"
       "disk = py_strip out"
    by auto
  define devs where "devs = snd (query_symlinks w disk)"
  define by_id where "by_id = filter (py_in ''disk/by-id'') devs"
  from fetch_idevs_found [OF d] assms
  have v: "v = (if by_id \<noteq> [] then hd (sort by_id) else disk)"
    by (simp add: by_id_def devs_def)
  show ?thesis
  proof (cases "by_id = []")
    case True
    with v o show ?thesis by simp
  next
    case ne: False
    then have "hd (sort by_id) = Min (set by_id)" by (rule hd_sort_Min)
    moreover from ne have "Min (set by_id) \<in> set by_id" by (intro Min_in) simp_all
    ultimately have "v \<in> set by_id" using v ne by simp
    then have vin: "v \<in> set devs" and vid: "py_in ''disk/by-id'' v"
      by (simp_all add: by_id_def)
    show ?thesis
    proof (cases "subp w [''udevadm'', ''info'', ''--root'', ''--query=symlink'', disk] None")
      case (Inl e)
      with vin show ?thesis by (simp add: devs_def query_symlinks_devices)
    next
      case (Inr p)
      obtain out' err' where "p = (out', err')" by (cases p)
      with Inr vin vid o show ?thesis by (auto simp: devs_def query_symlinks_devices)
    qed
  qed
qed

theorem fetch_idevs_result_shapes_witness:
  "snd (fetch_idevs bios_machine ''/boot'') = Inr ''/dev/disk/by-id/ata-XYZ'' \<and>
   ''/dev/disk/by-id/ata-XYZ'' \<in> set (py_split (py_strip example_links)) \<and>
   py_in ''disk/by-id'' ''/dev/disk/by-id/ata-XYZ''"
proof -
  have r: "snd (fetch_idevs bios_machine ''/boot'') = Inr ''/dev/disk/by-id/ata-XYZ''"
    by (simp add: eval_defs)
  from fetch_idevs_result_shapes [OF r] r show ?thesis
    by (simp add: bios_machine_def machine_def py_strip_def isspace_def)
qed

text \<open>
  Claim C10. When the system is not booted in EFI mode, \<open>get_debconf_owner\<close> returns
  \<open>grub-pc\<close> and invokes no command at all, and \<open>get_debconf_config\<close> never invokes
  the command that lists the owners.
\<close>

theorem bios_owner_is_grub_pc:
  assumes "snd (is_efi_booted w) = False"
  shows "snd (get_debconf_owner w) = Some ''grub-pc'' \<and>
         invoked (fst (get_debconf_owner w)) = [] \<and>
         [''debconf-show'', ''--listowners''] \<notin> set (invoked (fst (get_debconf_config w mycfg)))"
proof -
  have a: "snd (get_debconf_owner w) = Some ''grub-pc''"
    and b: "invoked (fst (get_debconf_owner w)) = []"
    using assms by (simp_all add: get_debconf_owner_bios is_efi_booted_invoked)
  have "set (invoked (fst (get_debconf_config w mycfg))) \<subseteq>
          set (invoked (fst (resolve_idevs w mycfg ''grub-pc/install_devices'' ''/boot'')))"
    using assms
    by (simp add: get_debconf_config_bios invoked_append is_efi_booted_invoked
        split: prod.split sum.split)
  with resolve_idevs_invoked [of w mycfg "''grub-pc/install_devices''" "''/boot''"]
  have "[''debconf-show'', ''--listowners''] \<notin> set (invoked (fst (get_debconf_config w mycfg)))"
    by auto
  with a b show ?thesis by simp
qed

theorem bios_owner_is_grub_pc_witness:
  "snd (is_efi_booted bios_machine) = False \<and>
   get_debconf_owner bios_machine = ([], Some ''grub-pc'') \<and>
   invoked (fst (get_debconf_config bios_machine [])) =
     [[''grub-probe'', ''-t'', ''disk'', ''/boot''],
      [''udevadm'', ''info'', ''--root'', ''--query=symlink'', ''/dev/sdb'']]"
proof -
  have h: "snd (is_efi_booted bios_machine) = False"
    by (simp add: bios_machine_def machine_def is_efi_booted_def)
  from bios_owner_is_grub_pc [OF h, of "[]"] h show ?thesis
    by (simp add: eval_defs get_debconf_owner_def get_debconf_config_def resolve_idevs_def
        get_cfg_option_str_def dict_get_def)
qed

end
